theory Spec2Isabelle
  imports Main "HOL-Library.Char_ord" "HOL-Library.List_Lexorder" "HOL-Library.Product_Lexorder"
    "HOL-Library.Multiset"
begin

section \<open>Strings\<close>

text \<open>
  Python strings are modelled as \<open>string\<close>, one \<open>char\<close> per character; the model
  covers ASCII text. The character classes are those of Python's \<open>str.strip\<close>,
  \<open>str.lower\<close> and of the \<open>re\<close> module on ASCII: \<open>\s\<close> is the set of codes 9-13, 28-31
  and 32, \<open>\d\<close> is 0-9.
\<close>

definition is_space :: "char \<Rightarrow> bool" where
  "is_space c = (let n = (of_char c :: nat) in (9 \<le> n \<and> n \<le> 13) \<or> (28 \<le> n \<and> n \<le> 32))"

definition is_digit :: "char \<Rightarrow> bool" where
  "is_digit c = (let n = (of_char c :: nat) in 48 \<le> n \<and> n \<le> 57)"

definition is_upper :: "char \<Rightarrow> bool" where
  "is_upper c = (let n = (of_char c :: nat) in 65 \<le> n \<and> n \<le> 90)"

definition is_lower :: "char \<Rightarrow> bool" where
  "is_lower c = (let n = (of_char c :: nat) in 97 \<le> n \<and> n \<le> 122)"

definition lower_char :: "char \<Rightarrow> char" where
  "lower_char c = (if is_upper c then char_of ((of_char c :: nat) + 32) else c)"

definition upper_char :: "char \<Rightarrow> char" where
  "upper_char c = (if is_lower c then char_of ((of_char c :: nat) - 32) else c)"

definition lower :: "string \<Rightarrow> string" where
  "lower s = map lower_char s"

definition strip :: "string \<Rightarrow> string" where
  "strip s = rev (dropWhile is_space (rev (dropWhile is_space s)))"

text \<open>\<open>s.replace("&", "and")\<close>\<close>

definition replace_amp :: "string \<Rightarrow> string" where
  "replace_amp s = concat (map (\<lambda>c. if c = CHR ''&'' then ''and'' else [c]) s)"

text \<open>\<open>sub in s\<close> for strings.\<close>

fun contains :: "string \<Rightarrow> string \<Rightarrow> bool" where
  "contains sub [] = (sub = [])"
| "contains sub (c # cs) = (take (length sub) (c # cs) = sub \<or> contains sub cs)"

section \<open>The canonical enumerations and the key\<close>

definition STATES_28 :: "string list" where
  "STATES_28 = [
    ''Andhra Pradesh'', ''Arunachal Pradesh'', ''Assam'', ''Bihar'', ''Chhattisgarh'',
    ''Goa'', ''Gujarat'', ''Haryana'', ''Himachal Pradesh'', ''Jharkhand'', ''Karnataka'',
    ''Kerala'', ''Madhya Pradesh'', ''Maharashtra'', ''Manipur'', ''Meghalaya'', ''Mizoram'',
    ''Nagaland'', ''Odisha'', ''Punjab'', ''Rajasthan'', ''Sikkim'', ''Tamil Nadu'',
    ''Telangana'', ''Tripura'', ''Uttar Pradesh'', ''Uttarakhand'', ''West Bengal'']"

definition UTS_8 :: "string list" where
  "UTS_8 = [
    ''Andaman And Nicobar Islands'',
    ''Chandigarh'',
    ''Dadra And Nagar Haveli And Daman And Diu'',
    ''Delhi'',
    ''Jammu And Kashmir'',
    ''Ladakh'',
    ''Lakshadweep'',
    ''Puducherry'']"

text \<open>
  \<open>_key\<close>: lower-case and strip, replace \<open>&\<close> by \<open>and\<close>, delete the runs of
  \<open>[\s_\-]\<close>, then delete the runs of \<open>[^a-z0-9]\<close>.
\<close>

definition key :: "string \<Rightarrow> string" where
  "key s0 =
    (let s = strip (lower s0);
         s = replace_amp s;
         s = filter (\<lambda>c. \<not> (is_space c \<or> c = CHR ''_'' \<or> c = CHR ''-'')) s;
         s = filter (\<lambda>c. is_lower c \<or> is_digit c) s
     in s)"

text \<open>The two dict comprehensions \<open>{_key(x): x for x in ...}\<close>, as association lists.\<close>

definition STATE_KEY_TO_NAME :: "(string \<times> string) list" where
  "STATE_KEY_TO_NAME = map (\<lambda>x. (key x, x)) STATES_28"

definition UT_KEY_TO_NAME :: "(string \<times> string) list" where
  "UT_KEY_TO_NAME = map (\<lambda>x. (key x, x)) UTS_8"

definition REGION_ALIASES :: "(string \<times> string) list" where
  "REGION_ALIASES = [
    (''tamilnadu'', ''Tamil Nadu''),
    (''westbengal'', ''West Bengal''),
    (''chattisgarh'', ''Chhattisgarh''),
    (''chhatishgarh'', ''Chhattisgarh''),
    (''uttaranchal'', ''Uttarakhand''),
    (''orissa'', ''Odisha''),
    (''telengana'', ''Telangana''),
    (''nctofdelhi'', ''Delhi''),
    (''delhinct'', ''Delhi''),
    (''newdelhi'', ''Delhi''),
    (''andamannicobarislands'', ''Andaman And Nicobar Islands''),
    (''dadraandnagarhaveli'', ''Dadra And Nagar Haveli And Daman And Diu''),
    (''damananddiu'', ''Dadra And Nagar Haveli And Daman And Diu''),
    (''dadraandnagarhavelianddamananddiu'', ''Dadra And Nagar Haveli And Daman And Diu''),
    (''pondicherry'', ''Puducherry'')]"

definition UT_DISTRICT_MAP :: "(string \<times> string) list" where
  "UT_DISTRICT_MAP = [
    (''eastdelhi'', ''Delhi''),
    (''westdelhi'', ''Delhi''),
    (''northdelhi'', ''Delhi''),
    (''southdelhi'', ''Delhi''),
    (''southwestdelhi'', ''Delhi''),
    (''south_east_delhi'', ''Delhi''),
    (''northeastdelhi'', ''Delhi''),
    (''northwestdelhi'', ''Delhi''),
    (''centraldelhi'', ''Delhi''),
    (''newdelhi'', ''Delhi''),
    (''srinagar'', ''Jammu And Kashmir''),
    (''jammu'', ''Jammu And Kashmir''),
    (''anantnag'', ''Jammu And Kashmir''),
    (''baramulla'', ''Jammu And Kashmir''),
    (''kupwara'', ''Jammu And Kashmir''),
    (''pulwama'', ''Jammu And Kashmir''),
    (''budgam'', ''Jammu And Kashmir''),
    (''ganderbal'', ''Jammu And Kashmir''),
    (''kulgam'', ''Jammu And Kashmir''),
    (''shopian'', ''Jammu And Kashmir''),
    (''bandipora'', ''Jammu And Kashmir''),
    (''punch'', ''Jammu And Kashmir''),
    (''poonch'', ''Jammu And Kashmir''),
    (''rajouri'', ''Jammu And Kashmir''),
    (''udhampur'', ''Jammu And Kashmir''),
    (''reasi'', ''Jammu And Kashmir''),
    (''ramban'', ''Jammu And Kashmir''),
    (''kathua'', ''Jammu And Kashmir''),
    (''samba'', ''Jammu And Kashmir''),
    (''doda'', ''Jammu And Kashmir''),
    (''kishtwar'', ''Jammu And Kashmir''),
    (''leh'', ''Ladakh''),
    (''kargil'', ''Ladakh''),
    (''puducherry'', ''Puducherry''),
    (''pondicherry'', ''Puducherry''),
    (''karaikal'', ''Puducherry''),
    (''mahe'', ''Puducherry''),
    (''yanam'', ''Puducherry''),
    (''chandigarh'', ''Chandigarh''),
    (''southandaman'', ''Andaman And Nicobar Islands''),
    (''northandmiddleandaman'', ''Andaman And Nicobar Islands''),
    (''nicobars'', ''Andaman And Nicobar Islands''),
    (''lakshadweep'', ''Lakshadweep''),
    (''dadraandnagarhaveli'', ''Dadra And Nagar Haveli And Daman And Diu''),
    (''daman'', ''Dadra And Nagar Haveli And Daman And Diu''),
    (''diu'', ''Dadra And Nagar Haveli And Daman And Diu'')]"

section \<open>Approximate matching\<close>

text \<open>
  \<open>difflib.get_close_matches(word, possibilities, n=1, cutoff=0.92)\<close>. For each
  candidate \<open>x\<close> the library sets \<open>a = x\<close>, \<open>b = word\<close> and keeps \<open>x\<close> when
  \<open>real_quick_ratio\<close>, \<open>quick_ratio\<close> and \<open>ratio\<close> are all at least the cutoff; it
  returns the kept candidate that is largest under \<open>(ratio, x)\<close>. Each ratio is
  \<open>2.0 * matches / (len(a) + len(b))\<close>, and 1.0 when both are empty. The comparison
  with 0.92 is written on the integers: \<open>2 * m / t \<ge> 23 / 25\<close> is \<open>50 * m \<ge> 23 * t\<close>.

  \<open>lcp\<close> is the length of the common prefix. \<open>find_longest_match\<close> returns
  \<open>(i, j, k)\<close>, the longest block \<open>a[i:i+k] = b[j:j+k]\<close>; of the longest blocks the
  one that starts earliest in \<open>a\<close>, and of those the one that starts earliest in
  \<open>b\<close>. \<open>matching\<close> is the total size of \<open>get_matching_blocks\<close>: the longest block,
  then the same to its left and to its right.
\<close>

fun lcp :: "string \<Rightarrow> string \<Rightarrow> nat" where
  "lcp (x # xs) (y # ys) = (if x = y then Suc (lcp xs ys) else 0)"
| "lcp _ _ = 0"

text \<open>
  \<open>scan_b i as j bs best\<close> tries the blocks that start at \<open>i\<close> in \<open>a\<close> (whose rest
  there is \<open>as\<close>) and at \<open>j, j+1, ...\<close> in \<open>b\<close> (whose rest at \<open>j\<close> is \<open>bs\<close>);
  \<open>scan_a\<close> does so for \<open>i, i+1, ...\<close>. A block replaces the best one only when it is
  strictly longer.
\<close>

fun scan_b :: "nat \<Rightarrow> string \<Rightarrow> nat \<Rightarrow> string \<Rightarrow> nat \<times> nat \<times> nat \<Rightarrow> nat \<times> nat \<times> nat" where
  "scan_b i as j [] best = best"
| "scan_b i as j (y # ys) best =
     scan_b i as (Suc j) ys
       (if snd (snd best) < lcp as (y # ys) then (i, j, lcp as (y # ys)) else best)"

fun scan_a :: "nat \<Rightarrow> string \<Rightarrow> string \<Rightarrow> nat \<times> nat \<times> nat \<Rightarrow> nat \<times> nat \<times> nat" where
  "scan_a i [] b best = best"
| "scan_a i (x # xs) b best = scan_a (Suc i) xs b (scan_b i (x # xs) 0 b best)"

definition find_longest_match :: "string \<Rightarrow> string \<Rightarrow> nat \<times> nat \<times> nat" where
  "find_longest_match a b = scan_a 0 a b (0, 0, 0)"

definition cutoff_ok :: "nat \<Rightarrow> nat \<Rightarrow> bool" where
  "cutoff_ok m t = (if t = 0 then True else 23 * t \<le> 50 * m)"

fun quick_matches :: "string \<Rightarrow> string \<Rightarrow> nat" where
  "quick_matches [] b = 0"
| "quick_matches (x # xs) b =
     (if x \<in> set b then Suc (quick_matches xs (remove1 x b)) else quick_matches xs b)"

definition block_in :: "nat \<Rightarrow> nat \<Rightarrow> nat \<times> nat \<times> nat \<Rightarrow> bool" where
  "block_in n m best = (0 < snd (snd best) \<longrightarrow> fst best < n \<and> fst (snd best) < m)"

lemma scan_b_in:
  "block_in n m best \<Longrightarrow> i < n \<Longrightarrow> j + length bs \<le> m \<Longrightarrow> block_in n m (scan_b i as j bs best)"
  by (induction bs arbitrary: j best) (auto simp: block_in_def)

lemma scan_a_in:
  "block_in n m best \<Longrightarrow> i + length xs \<le> n \<Longrightarrow> length b \<le> m \<Longrightarrow> block_in n m (scan_a i xs b best)"
proof (induction xs arbitrary: i best)
  case Nil
  then show ?case by simp
next
  case (Cons x xs)
  have "block_in n m (scan_b i (x # xs) 0 b best)"
    by (rule scan_b_in) (use Cons.prems in simp_all)
  then have "block_in n m (scan_a (Suc i) xs b (scan_b i (x # xs) 0 b best))"
    by (rule Cons.IH) (use Cons.prems in simp_all)
  then show ?case by simp
qed

lemma flm_bounds:
  assumes "find_longest_match a b = (i, j, k)" and "0 < k"
  shows "i < length a \<and> j < length b"
proof -
  have "block_in (length a) (length b) (find_longest_match a b)"
    unfolding find_longest_match_def by (rule scan_a_in) (simp_all add: block_in_def)
  with assms show ?thesis by (simp add: block_in_def)
qed

function matching :: "string \<Rightarrow> string \<Rightarrow> nat" where
  "matching a b =
     (case find_longest_match a b of
        (i, j, k) \<Rightarrow>
          if k = 0 then 0
          else k + matching (take i a) (take j b) + matching (drop (i + k) a) (drop (j + k) b))"
  by pat_completeness auto
termination
proof (relation "measure (\<lambda>(a, b). length a + length b)")
  show "wf (measure (\<lambda>(a, b). length a + length b))" by simp
next
  fix a b i y j k
  assume "(i, y) = find_longest_match a b" "(j, k) = y" "k \<noteq> 0"
  then have "find_longest_match a b = (i, j, k)" "0 < k" by auto
  from flm_bounds[OF this]
  show "((take i a, take j b), a, b) \<in> measure (\<lambda>(a, b). length a + length b)"
    by simp
next
  fix a b i y j k
  assume "(i, y) = find_longest_match a b" "(j, k) = y" "k \<noteq> 0"
  then have *: "find_longest_match a b = (i, j, k)" "0 < k" by auto
  from flm_bounds[OF *] *(2)
  have "length a - (i + k) + (length b - (j + k)) < length a + length b"
    by arith
  then show "((drop (i + k) a, drop (j + k) b), a, b) \<in> measure (\<lambda>(a, b). length a + length b)"
    by simp
qed

text \<open>The three tests of \<open>get_close_matches\<close>, in the library's order.\<close>

definition close_enough :: "string \<Rightarrow> string \<Rightarrow> bool" where
  "close_enough word x =
     (let t = length x + length word
      in if \<not> cutoff_ok (min (length x) (length word)) t then False
         else if \<not> cutoff_ok (quick_matches x word) t then False
         else cutoff_ok (matching x word) t)"

text \<open>The ratio as a fraction (numerator, denominator), and the order on \<open>(ratio, x)\<close>.\<close>

definition ratio :: "string \<Rightarrow> string \<Rightarrow> nat \<times> nat" where
  "ratio a b = (let t = length a + length b in if t = 0 then (1, 1) else (2 * matching a b, t))"

definition score_le :: "string \<Rightarrow> string \<Rightarrow> string \<Rightarrow> bool" where
  "score_le word x y =
     (case (ratio x word, ratio y word) of
        ((mx, tx), (my, ty)) \<Rightarrow> mx * ty < my * tx \<or> (mx * ty = my * tx \<and> x \<le> y))"

definition get_close_matches :: "string \<Rightarrow> string list \<Rightarrow> string list" where
  "get_close_matches word possibilities =
     (case filter (close_enough word) possibilities of
        [] \<Rightarrow> []
      | c # cs \<Rightarrow> [fold (\<lambda>y best. if score_le word best y then y else best) cs c])"

section \<open>canonicalize_region\<close>

text \<open>\<open>RE_MOSTLY_DIGITS.match(s)\<close> on the stripped state: \<open>^\d{3,}$\<close>.\<close>

definition mostly_digits :: "string \<Rightarrow> bool" where
  "mostly_digits s = (3 \<le> length s \<and> list_all is_digit s)"

text \<open>
  The block of the source that looks a key up in \<open>REGION_ALIASES\<close> and types the
  name by the enumeration it belongs to; it falls through when the name is in neither.
\<close>

definition alias_hit :: "string \<Rightarrow> (string \<times> string) option" where
  "alias_hit k =
     (case map_of REGION_ALIASES k of
        None \<Rightarrow> None
      | Some name \<Rightarrow>
          if name \<in> set STATES_28 then Some (''STATE'', name)
          else if name \<in> set UTS_8 then Some (''UT'', name)
          else None)"

definition canonicalize_region :: "string \<Rightarrow> string \<Rightarrow> string \<times> string" where
  "canonicalize_region state_raw district_raw =
     (let s = strip state_raw;
          d = strip district_raw;
          s = (if mostly_digits s then [] else s);
          sk = key s;
          dk = key d
      in case alias_hit sk of Some r \<Rightarrow> r | None \<Rightarrow>
         (case map_of STATE_KEY_TO_NAME sk of Some n \<Rightarrow> (''STATE'', n) | None \<Rightarrow>
         (case map_of UT_KEY_TO_NAME sk of Some n \<Rightarrow> (''UT'', n) | None \<Rightarrow>
         (case map_of UT_DISTRICT_MAP dk of Some n \<Rightarrow> (''UT'', n) | None \<Rightarrow>
         (if contains ''delhi'' dk then (''UT'', ''Delhi'') else
         (case alias_hit dk of Some r \<Rightarrow> r | None \<Rightarrow>
         (case map_of STATE_KEY_TO_NAME dk of Some n \<Rightarrow> (''STATE'', n) | None \<Rightarrow>
         (case map_of UT_KEY_TO_NAME dk of Some n \<Rightarrow> (''UT'', n) | None \<Rightarrow>
         (case get_close_matches sk (map fst STATE_KEY_TO_NAME) of
            c # _ \<Rightarrow> (''STATE'', the (map_of STATE_KEY_TO_NAME c)) | [] \<Rightarrow>
         (case get_close_matches sk (map fst UT_KEY_TO_NAME) of
            c # _ \<Rightarrow> (''UT'', the (map_of UT_KEY_TO_NAME c)) | [] \<Rightarrow>
         (''UNKNOWN'', [])))))))))))"

section \<open>The range of the resolver\<close>

lemma alias_hit_range:
  "alias_hit k = Some (t, n) \<Longrightarrow>
     (t = ''STATE'' \<and> n \<in> set STATES_28) \<or> (t = ''UT'' \<and> n \<in> set UTS_8)"
  unfolding alias_hit_def by (cases "map_of REGION_ALIASES k") (auto split: if_splits)

lemma state_lookup_range: "map_of STATE_KEY_TO_NAME k = Some n \<Longrightarrow> n \<in> set STATES_28"
proof -
  assume "map_of STATE_KEY_TO_NAME k = Some n"
  then have "(k, n) \<in> set STATE_KEY_TO_NAME" by (rule map_of_SomeD)
  then show ?thesis unfolding STATE_KEY_TO_NAME_def by auto
qed

lemma ut_lookup_range: "map_of UT_KEY_TO_NAME k = Some n \<Longrightarrow> n \<in> set UTS_8"
proof -
  assume "map_of UT_KEY_TO_NAME k = Some n"
  then have "(k, n) \<in> set UT_KEY_TO_NAME" by (rule map_of_SomeD)
  then show ?thesis unfolding UT_KEY_TO_NAME_def by auto
qed

lemma district_values: "list_all (\<lambda>(k, v). v \<in> set UTS_8) UT_DISTRICT_MAP"
  by code_simp

lemma alias_values:
  "list_all (\<lambda>(k, v). v \<in> set STATES_28 \<or> v \<in> set UTS_8) REGION_ALIASES"
  by code_simp

lemma district_lookup_range: "map_of UT_DISTRICT_MAP k = Some n \<Longrightarrow> n \<in> set UTS_8"
proof -
  assume "map_of UT_DISTRICT_MAP k = Some n"
  then have "(k, n) \<in> set UT_DISTRICT_MAP" by (rule map_of_SomeD)
  with district_values show ?thesis unfolding list_all_iff by blast
qed

lemma fold_pick_mem: "fold (\<lambda>y best. if p best y then y else best) cs c \<in> set (c # cs)"
proof (induction cs arbitrary: c)
  case Nil
  show ?case by simp
next
  case (Cons a cs)
  have "fold (\<lambda>y best. if p best y then y else best) cs (if p c a then a else c)
          \<in> set ((if p c a then a else c) # cs)"
    by (rule Cons.IH)
  then show ?case by (cases "p c a") auto
qed

lemma get_close_matches_mem:
  assumes a: "get_close_matches w ps = c # cs"
  shows "c \<in> set ps"
proof (cases "filter (close_enough w) ps")
  case Nil
  with a show ?thesis by (simp add: get_close_matches_def)
next
  case (Cons x xs)
  with a have c: "c = fold (\<lambda>y best. if score_le w best y then y else best) xs x"
    by (simp add: get_close_matches_def)
  have "c \<in> set (x # xs)" unfolding c by (rule fold_pick_mem)
  then have "c \<in> set (filter (close_enough w) ps)" using Cons by simp
  then show ?thesis by simp
qed

lemma state_key_lookup:
  assumes "c \<in> set (map fst STATE_KEY_TO_NAME)"
  shows "the (map_of STATE_KEY_TO_NAME c) \<in> set STATES_28"
proof (cases "map_of STATE_KEY_TO_NAME c")
  case None
  with assms show ?thesis by (simp add: map_of_eq_None_iff)
next
  case (Some n)
  then show ?thesis using state_lookup_range by simp
qed

lemma ut_key_lookup:
  assumes "c \<in> set (map fst UT_KEY_TO_NAME)"
  shows "the (map_of UT_KEY_TO_NAME c) \<in> set UTS_8"
proof (cases "map_of UT_KEY_TO_NAME c")
  case None
  with assms show ?thesis by (simp add: map_of_eq_None_iff)
next
  case (Some n)
  then show ?thesis using ut_lookup_range by simp
qed


text \<open>
  The results the resolver may return: a state of the enumeration, a union territory
  of the enumeration, or \<open>("UNKNOWN", "")\<close>.
\<close>

definition in_range :: "string \<times> string \<Rightarrow> bool" where
  "in_range r = (case r of (t, n) \<Rightarrow>
     (t = ''STATE'' \<and> n \<in> set STATES_28) \<or> (t = ''UT'' \<and> n \<in> set UTS_8)
     \<or> (t = ''UNKNOWN'' \<and> n = []))"

lemma delhi_ut: "''Delhi'' \<in> set UTS_8"
  by (simp add: UTS_8_def)

lemma in_range_optionI:
  "(x = None \<Longrightarrow> in_range a) \<Longrightarrow> (\<And>y. x = Some y \<Longrightarrow> in_range (f y)) \<Longrightarrow>
     in_range (case x of None \<Rightarrow> a | Some y \<Rightarrow> f y)"
  by (cases x) auto

lemma in_range_listI:
  "(x = [] \<Longrightarrow> in_range a) \<Longrightarrow> (\<And>y ys. x = y # ys \<Longrightarrow> in_range (f y ys)) \<Longrightarrow>
     in_range (case x of [] \<Rightarrow> a | y # ys \<Rightarrow> f y ys)"
  by (cases x) auto

lemma in_range_ifI:
  "(c \<Longrightarrow> in_range a) \<Longrightarrow> (\<not> c \<Longrightarrow> in_range b) \<Longrightarrow> in_range (if c then a else b)"
  by simp

lemma in_range_alias: "alias_hit k = Some r \<Longrightarrow> in_range r"
  using alias_hit_range[of k "fst r" "snd r"] by (auto simp: in_range_def)

lemma in_range_state: "n \<in> set STATES_28 \<Longrightarrow> in_range (''STATE'', n)"
  by (simp add: in_range_def)

lemma in_range_ut: "n \<in> set UTS_8 \<Longrightarrow> in_range (''UT'', n)"
  by (simp add: in_range_def)

lemma in_range_unknown: "in_range (''UNKNOWN'', [])"
  by (simp add: in_range_def)

text \<open>
  Claim C3. For every pair of input strings \<open>canonicalize_region\<close> returns (the model is
  a total function with no error branch: the source has no raise and indexes the
  dictionaries only under a membership test or with a key taken from them), and the
  result is \<open>("STATE", n)\<close> with \<open>n\<close> one of the 28 states, \<open>("UT", n)\<close> with \<open>n\<close> one of
  the 8 union territories, or \<open>("UNKNOWN", "")\<close>. Every value of \<open>REGION_ALIASES\<close> lies
  in one of the two enumerations and every value of \<open>UT_DISTRICT_MAP\<close> is a union
  territory, which the unconditional \<open>return ("UT", UT_DISTRICT_MAP[dk])\<close> needs.
\<close>

theorem canonicalize_region_range:
  "in_range (canonicalize_region state_raw district_raw)
   \<and> list_all (\<lambda>(k, v). v \<in> set STATES_28 \<or> v \<in> set UTS_8) REGION_ALIASES
   \<and> list_all (\<lambda>(k, v). v \<in> set UTS_8) UT_DISTRICT_MAP
   \<and> length STATES_28 = 28 \<and> length UTS_8 = 8"
proof -
  have "in_range (canonicalize_region state_raw district_raw)"
    unfolding canonicalize_region_def Let_def
    by (intro in_range_optionI in_range_listI in_range_ifI)
       (erule in_range_alias
        | rule in_range_unknown
        | rule in_range_state, erule state_lookup_range
        | rule in_range_ut, erule ut_lookup_range
        | rule in_range_ut, erule district_lookup_range
        | rule in_range_ut, rule delhi_ut
        | rule in_range_state, rule state_key_lookup, erule get_close_matches_mem
        | rule in_range_ut, rule ut_key_lookup, erule get_close_matches_mem)+
  moreover have "length STATES_28 = 28" "length UTS_8 = 8"
    by (simp_all add: STATES_28_def UTS_8_def)
  ultimately show ?thesis
    using alias_values district_values by simp
qed

section \<open>The key, character by character\<close>

text \<open>
  What \<open>_key\<close> makes of one character: \<open>&\<close> becomes \<open>and\<close>, a letter or digit is
  kept in lower case, anything else is dropped.
\<close>

definition key_char :: "char \<Rightarrow> string" where
  "key_char c = (let l = lower_char c in
     if l = CHR ''&'' then ''and'' else if is_lower l \<or> is_digit l then [l] else [])"

lemma char_codes:
  "of_char (CHR ''&'') = (38::nat)" "of_char (CHR ''_'') = (95::nat)" "of_char (CHR ''-'') = (45::nat)"
  "of_char (CHR ''a'') = (97::nat)" "of_char (CHR ''n'') = (110::nat)" "of_char (CHR ''d'') = (100::nat)"
  by simp_all

lemma alnum_not_sep:
  assumes "is_lower c \<or> is_digit c"
  shows "\<not> is_space c" "c \<noteq> CHR ''_''" "c \<noteq> CHR ''-''" "c \<noteq> CHR ''&''"
  using assms char_codes by (auto simp: is_lower_def is_digit_def is_space_def Let_def)

lemma space_not_amp: "is_space c \<Longrightarrow> c \<noteq> CHR ''&''"
  using char_codes by (auto simp: is_space_def Let_def)

lemma and_lower: "is_lower (CHR ''a'')" "is_lower (CHR ''n'')" "is_lower (CHR ''d'')"
  using char_codes by (simp_all add: is_lower_def Let_def)

lemma filter_replace_amp:
  "filter (\<lambda>c. is_lower c \<or> is_digit c) (replace_amp xs) =
   concat (map (\<lambda>c. if c = CHR ''&'' then ''and'' else if is_lower c \<or> is_digit c then [c] else []) xs)"
  unfolding replace_amp_def
  by (induction xs) (simp_all add: and_lower)

lemma concat_dropWhile:
  assumes "\<And>c. P c \<Longrightarrow> g c = []"
  shows "concat (map g (dropWhile P xs)) = concat (map g xs)"
  using assms by (induction xs) simp_all

lemma concat_rev_dropWhile:
  assumes "\<And>c. P c \<Longrightarrow> g c = []"
  shows "concat (map g (rev (dropWhile P (rev xs)))) = concat (map g xs)"
proof -
  have "xs = rev (dropWhile P (rev xs)) @ rev (takeWhile P (rev xs))"
    by (metis rev_append rev_rev_ident takeWhile_dropWhile_id)
  moreover have "concat (map g (rev (takeWhile P (rev xs)))) = []"
    using assms by (auto dest: set_takeWhileD)
  ultimately have "concat (map g xs) = concat (map g (rev (dropWhile P (rev xs)))) @ []"
    by (metis concat_append map_append)
  then show ?thesis by simp
qed

lemma concat_strip:
  assumes "\<And>c. is_space c \<Longrightarrow> g c = []"
  shows "concat (map g (strip xs)) = concat (map g xs)"
  unfolding strip_def using assms by (simp add: concat_rev_dropWhile concat_dropWhile)

lemma key_concat: "key s = concat (map key_char s)"
proof -
  let ?P2 = "\<lambda>c. is_lower c \<or> is_digit c"
  let ?g = "\<lambda>c. if c = CHR ''&'' then ''and'' else if ?P2 c then [c] else []"
  have sp: "\<And>c. is_space c \<Longrightarrow> ?g c = []"
    using alnum_not_sep(1) space_not_amp by auto
  have "key s = filter ?P2 (filter (\<lambda>c. \<not> (is_space c \<or> c = CHR ''_'' \<or> c = CHR ''-''))
                  (replace_amp (strip (lower s))))"
    by (simp add: key_def)
  also have "\<dots> = filter ?P2 (replace_amp (strip (lower s)))"
    using alnum_not_sep by (auto intro!: filter_cong)
  also have "\<dots> = concat (map ?g (strip (lower s)))"
    by (rule filter_replace_amp)
  also have "\<dots> = concat (map ?g (lower s))"
    using sp by (rule concat_strip)
  also have "\<dots> = concat (map key_char s)"
    by (simp add: lower_def comp_def Let_def key_char_def[abs_def])
  finally show ?thesis .
qed

section \<open>The tables, evaluated\<close>

lemma key_char_lits:
  "key_char (CHR ''a'') = ''a''"
  "key_char (CHR ''b'') = ''b''"
  "key_char (CHR ''c'') = ''c''"
  "key_char (CHR ''d'') = ''d''"
  "key_char (CHR ''e'') = ''e''"
  "key_char (CHR ''f'') = ''f''"
  "key_char (CHR ''g'') = ''g''"
  "key_char (CHR ''h'') = ''h''"
  "key_char (CHR ''i'') = ''i''"
  "key_char (CHR ''j'') = ''j''"
  "key_char (CHR ''k'') = ''k''"
  "key_char (CHR ''l'') = ''l''"
  "key_char (CHR ''m'') = ''m''"
  "key_char (CHR ''n'') = ''n''"
  "key_char (CHR ''o'') = ''o''"
  "key_char (CHR ''p'') = ''p''"
  "key_char (CHR ''q'') = ''q''"
  "key_char (CHR ''r'') = ''r''"
  "key_char (CHR ''s'') = ''s''"
  "key_char (CHR ''t'') = ''t''"
  "key_char (CHR ''u'') = ''u''"
  "key_char (CHR ''v'') = ''v''"
  "key_char (CHR ''w'') = ''w''"
  "key_char (CHR ''x'') = ''x''"
  "key_char (CHR ''y'') = ''y''"
  "key_char (CHR ''z'') = ''z''"
  "key_char (CHR ''A'') = ''a''"
  "key_char (CHR ''B'') = ''b''"
  "key_char (CHR ''C'') = ''c''"
  "key_char (CHR ''D'') = ''d''"
  "key_char (CHR ''E'') = ''e''"
  "key_char (CHR ''F'') = ''f''"
  "key_char (CHR ''G'') = ''g''"
  "key_char (CHR ''H'') = ''h''"
  "key_char (CHR ''I'') = ''i''"
  "key_char (CHR ''J'') = ''j''"
  "key_char (CHR ''K'') = ''k''"
  "key_char (CHR ''L'') = ''l''"
  "key_char (CHR ''M'') = ''m''"
  "key_char (CHR ''N'') = ''n''"
  "key_char (CHR ''O'') = ''o''"
  "key_char (CHR ''P'') = ''p''"
  "key_char (CHR ''Q'') = ''q''"
  "key_char (CHR ''R'') = ''r''"
  "key_char (CHR ''S'') = ''s''"
  "key_char (CHR ''T'') = ''t''"
  "key_char (CHR ''U'') = ''u''"
  "key_char (CHR ''V'') = ''v''"
  "key_char (CHR ''W'') = ''w''"
  "key_char (CHR ''X'') = ''x''"
  "key_char (CHR ''Y'') = ''y''"
  "key_char (CHR ''Z'') = ''z''"
  "key_char (CHR ''0'') = ''0''"
  "key_char (CHR ''1'') = ''1''"
  "key_char (CHR ''2'') = ''2''"
  "key_char (CHR ''3'') = ''3''"
  "key_char (CHR ''4'') = ''4''"
  "key_char (CHR ''5'') = ''5''"
  "key_char (CHR ''6'') = ''6''"
  "key_char (CHR ''7'') = ''7''"
  "key_char (CHR ''8'') = ''8''"
  "key_char (CHR ''9'') = ''9''"
  "key_char (CHR '' '') = []"
  "key_char (CHR ''&'') = ''and''"
  "key_char (CHR ''_'') = []"
  "key_char (CHR ''-'') = []"
  by code_simp+

lemma is_digit_lits:
  "is_digit (CHR ''a'') = False"
  "is_digit (CHR ''b'') = False"
  "is_digit (CHR ''c'') = False"
  "is_digit (CHR ''d'') = False"
  "is_digit (CHR ''e'') = False"
  "is_digit (CHR ''f'') = False"
  "is_digit (CHR ''g'') = False"
  "is_digit (CHR ''h'') = False"
  "is_digit (CHR ''i'') = False"
  "is_digit (CHR ''j'') = False"
  "is_digit (CHR ''k'') = False"
  "is_digit (CHR ''l'') = False"
  "is_digit (CHR ''m'') = False"
  "is_digit (CHR ''n'') = False"
  "is_digit (CHR ''o'') = False"
  "is_digit (CHR ''p'') = False"
  "is_digit (CHR ''q'') = False"
  "is_digit (CHR ''r'') = False"
  "is_digit (CHR ''s'') = False"
  "is_digit (CHR ''t'') = False"
  "is_digit (CHR ''u'') = False"
  "is_digit (CHR ''v'') = False"
  "is_digit (CHR ''w'') = False"
  "is_digit (CHR ''x'') = False"
  "is_digit (CHR ''y'') = False"
  "is_digit (CHR ''z'') = False"
  "is_digit (CHR ''0'') = True"
  "is_digit (CHR ''1'') = True"
  "is_digit (CHR ''2'') = True"
  "is_digit (CHR ''3'') = True"
  "is_digit (CHR ''4'') = True"
  "is_digit (CHR ''5'') = True"
  "is_digit (CHR ''6'') = True"
  "is_digit (CHR ''7'') = True"
  "is_digit (CHR ''8'') = True"
  "is_digit (CHR ''9'') = True"
  by code_simp+

lemma state_table: "STATE_KEY_TO_NAME = [
    (''andhrapradesh'', ''Andhra Pradesh''), (''arunachalpradesh'', ''Arunachal Pradesh''),
    (''assam'', ''Assam''), (''bihar'', ''Bihar''), (''chhattisgarh'', ''Chhattisgarh''),
    (''goa'', ''Goa''), (''gujarat'', ''Gujarat''), (''haryana'', ''Haryana''),
    (''himachalpradesh'', ''Himachal Pradesh''), (''jharkhand'', ''Jharkhand''),
    (''karnataka'', ''Karnataka''), (''kerala'', ''Kerala''), (''madhyapradesh'', ''Madhya Pradesh''),
    (''maharashtra'', ''Maharashtra''), (''manipur'', ''Manipur''), (''meghalaya'', ''Meghalaya''),
    (''mizoram'', ''Mizoram''), (''nagaland'', ''Nagaland''), (''odisha'', ''Odisha''),
    (''punjab'', ''Punjab''), (''rajasthan'', ''Rajasthan''), (''sikkim'', ''Sikkim''),
    (''tamilnadu'', ''Tamil Nadu''), (''telangana'', ''Telangana''), (''tripura'', ''Tripura''),
    (''uttarpradesh'', ''Uttar Pradesh''), (''uttarakhand'', ''Uttarakhand''),
    (''westbengal'', ''West Bengal'')]"
  by (simp add: STATE_KEY_TO_NAME_def STATES_28_def key_concat key_char_lits)

lemma ut_table: "UT_KEY_TO_NAME = [
    (''andamanandnicobarislands'', ''Andaman And Nicobar Islands''),
    (''chandigarh'', ''Chandigarh''),
    (''dadraandnagarhavelianddamananddiu'', ''Dadra And Nagar Haveli And Daman And Diu''),
    (''delhi'', ''Delhi''), (''jammuandkashmir'', ''Jammu And Kashmir''), (''ladakh'', ''Ladakh''),
    (''lakshadweep'', ''Lakshadweep''), (''puducherry'', ''Puducherry'')]"
  by (simp add: UT_KEY_TO_NAME_def UTS_8_def key_concat key_char_lits)

section \<open>The precedence chain\<close>

text \<open>
  The precedence chain as the specification words it: eight lookups on the two
  normalised keys, tried in order, the first hit returned, \<open>UNKNOWN\<close> otherwise.
  An alias is typed by the enumeration its canonical name belongs to.
\<close>

definition region_type_of :: "string \<Rightarrow> string" where
  "region_type_of n = (if n \<in> set STATES_28 then ''STATE'' else ''UT'')"

definition alias_lookup :: "string \<Rightarrow> (string \<times> string) option" where
  "alias_lookup k = map_option (\<lambda>n. (region_type_of n, n)) (map_of REGION_ALIASES k)"

definition exact_lookup :: "string \<Rightarrow> (string \<times> string) option" where
  "exact_lookup k =
     (case map_of STATE_KEY_TO_NAME k of
        Some n \<Rightarrow> Some (''STATE'', n)
      | None \<Rightarrow> map_option (\<lambda>n. (''UT'', n)) (map_of UT_KEY_TO_NAME k))"

definition district_lookup :: "string \<Rightarrow> (string \<times> string) option" where
  "district_lookup k = map_option (\<lambda>n. (''UT'', n)) (map_of UT_DISTRICT_MAP k)"

definition delhi_catch_all :: "string \<Rightarrow> (string \<times> string) option" where
  "delhi_catch_all k = (if contains ''delhi'' k then Some (''UT'', ''Delhi'') else None)"

definition fuzzy_lookup :: "string \<Rightarrow> (string \<times> string) list \<Rightarrow> string \<Rightarrow> (string \<times> string) option" where
  "fuzzy_lookup t table k =
     (case get_close_matches k (map fst table) of
        [] \<Rightarrow> None
      | c # _ \<Rightarrow> Some (t, the (map_of table c)))"

fun first_hit :: "'a option list \<Rightarrow> 'a \<Rightarrow> 'a" where
  "first_hit [] d = d"
| "first_hit (Some r # _) d = r"
| "first_hit (None # xs) d = first_hit xs d"

definition chain :: "string \<Rightarrow> string \<Rightarrow> string \<times> string" where
  "chain sk dk =
     first_hit
       [alias_lookup sk,
        exact_lookup sk,
        district_lookup dk,
        delhi_catch_all dk,
        alias_lookup dk,
        exact_lookup dk,
        fuzzy_lookup ''STATE'' STATE_KEY_TO_NAME sk,
        fuzzy_lookup ''UT'' UT_KEY_TO_NAME sk]
       (''UNKNOWN'', [])"

definition normalized_state_key :: "string \<Rightarrow> string" where
  "normalized_state_key state_raw =
     key (let s = strip state_raw in if mostly_digits s then [] else s)"

definition normalized_district_key :: "string \<Rightarrow> string" where
  "normalized_district_key district_raw = key (strip district_raw)"

definition resolve :: "string \<Rightarrow> string \<Rightarrow> string \<times> string" where
  "resolve state_raw district_raw =
     chain (normalized_state_key state_raw) (normalized_district_key district_raw)"

lemma alias_hit_lookup: "alias_hit k = alias_lookup k"
proof (cases "map_of REGION_ALIASES k")
  case None
  then show ?thesis by (simp add: alias_hit_def alias_lookup_def)
next
  case (Some n)
  then have "(k, n) \<in> set REGION_ALIASES" by (rule map_of_SomeD)
  with alias_values have "n \<in> set STATES_28 \<or> n \<in> set UTS_8"
    unfolding list_all_iff by blast
  with Some show ?thesis
    by (auto simp: alias_hit_def alias_lookup_def region_type_of_def)
qed

lemma canonicalize_region_chain:
  "canonicalize_region s d = chain (normalized_state_key s) (normalized_district_key d)"
  unfolding canonicalize_region_def chain_def normalized_state_key_def normalized_district_key_def
    Let_def alias_hit_lookup exact_lookup_def district_lookup_def delhi_catch_all_def
    fuzzy_lookup_def
  by (simp split: option.split list.split)

text \<open>
  Claim C2. For every pair of input strings, \<open>canonicalize_region\<close> is the fixed chain:
  (1) alias lookup on the normalised state key, (2) exact canonical-key lookup of the
  state key, in the states and then the union territories, (3) exact lookup of the
  normalised district key in the district map, (4) \<open>delhi\<close> contained in the district
  key, (5) alias lookup on the district key, (6) exact lookup of the district key,
  (7) approximate lookup of the state key in the state keys, (8) the same in the
  union-territory keys, (9) \<open>UNKNOWN\<close>; the first hit is returned.
\<close>

theorem resolver_precedence:
  "canonicalize_region state_raw district_raw = resolve state_raw district_raw"
  unfolding resolve_def by (rule canonicalize_region_chain)

section \<open>Evaluating the resolver\<close>

lemma key_char_space: "is_space c \<Longrightarrow> key_char c = []"
proof -
  assume sp: "is_space c"
  then have "\<not> is_upper c" by (auto simp: is_space_def is_upper_def Let_def)
  then have "lower_char c = c" by (simp add: lower_char_def)
  moreover from sp have "c \<noteq> CHR ''&''" by (rule space_not_amp)
  moreover from sp have "\<not> (is_lower c \<or> is_digit c)" using alnum_not_sep(1) by blast
  ultimately show ?thesis by (simp add: key_char_def)
qed

lemma key_char_digit: "is_digit c \<Longrightarrow> key_char c = [c]"
proof -
  assume d: "is_digit c"
  then have "\<not> is_upper c" by (auto simp: is_digit_def is_upper_def Let_def)
  then have "lower_char c = c" by (simp add: lower_char_def)
  moreover from d have "c \<noteq> CHR ''&''" using alnum_not_sep(4) by blast
  ultimately show ?thesis using d by (simp add: key_char_def)
qed

lemma key_strip: "key (strip s) = key s"
  unfolding key_concat by (rule concat_strip) (rule key_char_space)

lemma key_digits: "list_all is_digit s \<Longrightarrow> key s = s"
  unfolding key_concat by (induction s) (simp_all add: key_char_digit)

lemma key_Nil: "key [] = []"
  by (simp add: key_concat)

lemma normalized_district_key_eq: "normalized_district_key d = key d"
  by (simp add: normalized_district_key_def key_strip)

lemma normalized_state_key_eq:
  "normalized_state_key s = (if mostly_digits (strip s) then [] else key s)"
  by (simp add: normalized_state_key_def key_strip key_Nil)

lemma mostly_digits_key:
  assumes "mostly_digits (strip s)"
  shows "key s = strip s"
proof -
  from assms have "key (strip s) = strip s" by (simp add: mostly_digits_def key_digits)
  then show ?thesis by (simp add: key_strip)
qed

lemma normalized_state_key_letter:
  "\<not> is_digit (hd (key s)) \<Longrightarrow> normalized_state_key s = key s"
proof -
  assume h: "\<not> is_digit (hd (key s))"
  have "\<not> mostly_digits (strip s)"
  proof
    assume m: "mostly_digits (strip s)"
    then have k: "key s = strip s" by (rule mostly_digits_key)
    from m have "strip s \<noteq> []" "list_all is_digit (strip s)" by (auto simp: mostly_digits_def)
    then have "is_digit (hd (strip s))" by (cases "strip s") auto
    with h k show False by simp
  qed
  then show ?thesis by (simp add: normalized_state_key_eq)
qed

lemma normalized_state_key_Nil: "normalized_state_key [] = []"
  by (simp add: normalized_state_key_eq key_Nil strip_def mostly_digits_def)

lemma chain_lazy:
  "chain sk dk =
     (case alias_lookup sk of Some r \<Rightarrow> r | None \<Rightarrow>
     (case exact_lookup sk of Some r \<Rightarrow> r | None \<Rightarrow>
     (case district_lookup dk of Some r \<Rightarrow> r | None \<Rightarrow>
     (case delhi_catch_all dk of Some r \<Rightarrow> r | None \<Rightarrow>
     (case alias_lookup dk of Some r \<Rightarrow> r | None \<Rightarrow>
     (case exact_lookup dk of Some r \<Rightarrow> r | None \<Rightarrow>
     (case fuzzy_lookup ''STATE'' STATE_KEY_TO_NAME sk of Some r \<Rightarrow> r | None \<Rightarrow>
     (case fuzzy_lookup ''UT'' UT_KEY_TO_NAME sk of Some r \<Rightarrow> r | None \<Rightarrow>
     (''UNKNOWN'', [])))))))))"
  unfolding chain_def by (simp split: option.split)

lemmas eval_region =
  canonicalize_region_chain normalized_state_key_letter normalized_state_key_Nil
  normalized_district_key_eq key_concat key_char_lits is_digit_lits chain_lazy
  alias_lookup_def exact_lookup_def district_lookup_def delhi_catch_all_def
  region_type_of_def state_table ut_table REGION_ALIASES_def UT_DISTRICT_MAP_def STATES_28_def

lemma states_identity:
  "list_all (\<lambda>n. canonicalize_region n [] = (''STATE'', n)) STATES_28"
  unfolding STATES_28_def
  by (simp add: eval_region)

lemma uts_identity:
  "list_all (\<lambda>n. canonicalize_region n [] = (''UT'', n)) UTS_8"
  unfolding UTS_8_def
  by (simp add: eval_region)

lemma aliases_resolve:
  "list_all (\<lambda>(a, n). canonicalize_region a [] = (region_type_of n, n)) REGION_ALIASES"
  unfolding REGION_ALIASES_def
  by (simp add: eval_region)

text \<open>
  Claim C9. For every canonical name \<open>n\<close> of the 28 states, \<open>canonicalize_region n ""\<close>
  is \<open>("STATE", n)\<close>; for every canonical name \<open>n\<close> of the 8 union territories it is
  \<open>("UT", n)\<close>; and for every alias \<open>a\<close> that \<open>REGION_ALIASES\<close> maps to \<open>n\<close>,
  \<open>canonicalize_region a ""\<close> is \<open>n\<close> with the type of \<open>n\<close>'s enumeration.
\<close>

theorem canonical_identity:
  "(\<forall>n \<in> set STATES_28. canonicalize_region n [] = (''STATE'', n))
   \<and> (\<forall>n \<in> set UTS_8. canonicalize_region n [] = (''UT'', n))
   \<and> (\<forall>(a, n) \<in> set REGION_ALIASES. canonicalize_region a [] = (region_type_of n, n))"
  using states_identity uts_identity aliases_resolve by (simp add: list_all_iff)

theorem canonical_identity_witness:
  "''Goa'' \<in> set STATES_28 \<and> canonicalize_region ''Goa'' [] = (''STATE'', ''Goa'')
   \<and> ''Ladakh'' \<in> set UTS_8 \<and> canonicalize_region ''Ladakh'' [] = (''UT'', ''Ladakh'')
   \<and> (''orissa'', ''Odisha'') \<in> set REGION_ALIASES
   \<and> canonicalize_region ''orissa'' [] = (''STATE'', ''Odisha'')"
proof -
  have a: "''Goa'' \<in> set STATES_28" by (simp add: STATES_28_def)
  have b: "''Ladakh'' \<in> set UTS_8" by (simp add: UTS_8_def)
  have c: "(''orissa'', ''Odisha'') \<in> set REGION_ALIASES" by (simp add: REGION_ALIASES_def)
  have t: "region_type_of ''Odisha'' = ''STATE''" by (simp add: region_type_of_def STATES_28_def)
  from canonical_identity a have "canonicalize_region ''Goa'' [] = (''STATE'', ''Goa'')" by blast
  moreover from canonical_identity b
  have "canonicalize_region ''Ladakh'' [] = (''UT'', ''Ladakh'')" by blast
  moreover from canonical_identity c
  have "canonicalize_region ''orissa'' [] = (region_type_of ''Odisha'', ''Odisha'')" by blast
  ultimately show ?thesis using a b c t by simp
qed

section \<open>Numeric junk\<close>

lemma dropWhile_none: "\<forall>c \<in> set v. \<not> P c \<Longrightarrow> dropWhile P v = v"
  by (cases v) simp_all

lemma strip_digits: "list_all is_digit v \<Longrightarrow> strip v = v"
proof -
  assume "list_all is_digit v"
  then have n: "\<forall>c \<in> set v. \<not> is_space c"
    using alnum_not_sep(1) by (auto simp: list_all_iff)
  then have "\<forall>c \<in> set (rev v). \<not> is_space c" by simp
  then have "dropWhile is_space (rev v) = rev v" by (rule dropWhile_none)
  moreover from n have "dropWhile is_space v = v" by (rule dropWhile_none)
  ultimately show ?thesis by (simp add: strip_def)
qed

text \<open>Every key of a table starts with a character that is not a digit.\<close>

definition letter_first :: "(string \<times> string) list \<Rightarrow> bool" where
  "letter_first table = list_all (\<lambda>(k, n). k \<noteq> [] \<and> \<not> is_digit (hd k)) table"

lemma tables_letter_first:
  "letter_first REGION_ALIASES" "letter_first UT_DISTRICT_MAP"
  "letter_first STATE_KEY_TO_NAME" "letter_first UT_KEY_TO_NAME"
  unfolding letter_first_def
  by (simp_all add: REGION_ALIASES_def UT_DISTRICT_MAP_def state_table ut_table is_digit_lits)

lemma digits_not_key:
  assumes "letter_first table" "list_all is_digit v"
  shows "map_of table v = None"
proof (cases "map_of table v")
  case None
  then show ?thesis .
next
  case (Some n)
  then have "(v, n) \<in> set table" by (rule map_of_SomeD)
  with assms(1) have "v \<noteq> []" "\<not> is_digit (hd v)"
    unfolding letter_first_def list_all_iff by auto
  with assms(2) show ?thesis by (cases v) simp_all
qed

lemma digits_no_delhi: "list_all is_digit v \<Longrightarrow> \<not> contains ''delhi'' v"
  by (induction v) (auto simp: is_digit_lits)

lemma digits_district_miss:
  assumes "list_all is_digit v"
  shows "district_lookup v = None" "delhi_catch_all v = None"
        "alias_lookup v = None" "exact_lookup v = None"
  using assms tables_letter_first
  by (simp_all add: district_lookup_def delhi_catch_all_def alias_lookup_def exact_lookup_def
        digits_not_key digits_no_delhi)

lemma chain_digits_district:
  assumes "list_all is_digit v"
  shows "chain sk v = chain sk []"
proof -
  have "list_all is_digit ([] :: string)" by simp
  note a = digits_district_miss[OF assms] digits_district_miss[OF this]
  show ?thesis unfolding chain_def by (simp only: a)
qed

text \<open>
  Claim C5. A value made of three or more digits and nothing else behaves as the
  empty string in either position of \<open>canonicalize_region\<close>. In the state position
  the source blanks it (\<open>RE_MOSTLY_DIGITS\<close>) before \<open>_key\<close>; in the district position
  the source does not blank it, and the result is the same because no key of any
  table consists of digits and \<open>delhi\<close> is not contained in digits.
\<close>

theorem numeric_junk_blanked:
  assumes "mostly_digits v"
  shows "canonicalize_region v district_raw = canonicalize_region [] district_raw
         \<and> canonicalize_region state_raw v = canonicalize_region state_raw []"
proof -
  from assms have d: "list_all is_digit v" by (simp add: mostly_digits_def)
  then have s: "strip v = v" by (rule strip_digits)
  have "normalized_state_key v = []"
    using assms s by (simp add: normalized_state_key_eq)
  then have 1: "canonicalize_region v district_raw = canonicalize_region [] district_raw"
    by (simp add: canonicalize_region_chain normalized_state_key_Nil)
  have "normalized_district_key v = v"
    using d by (simp add: normalized_district_key_eq key_digits)
  then have 2: "canonicalize_region state_raw v = canonicalize_region state_raw []"
    using chain_digits_district[OF d]
    by (simp add: canonicalize_region_chain normalized_district_key_eq key_Nil)
  from 1 2 show ?thesis ..
qed

theorem numeric_junk_blanked_witness:
  "mostly_digits ''110001''
   \<and> canonicalize_region ''110001'' ''Leh'' = canonicalize_region [] ''Leh''
   \<and> canonicalize_region ''Goa'' ''110001'' = canonicalize_region ''Goa'' []"
proof -
  have m: "mostly_digits ''110001''" by (simp add: mostly_digits_def is_digit_lits)
  from numeric_junk_blanked[OF m, of "''Leh''" "''Goa''"] m show ?thesis by simp
qed

section \<open>Approximate matches of one key\<close>

lemma quick_matches_size: "quick_matches a b = size (mset a \<inter># mset b)"
proof (induction a arbitrary: b)
  case Nil
  show ?case by simp
next
  case (Cons x xs)
  show ?case
  proof (cases "x \<in> set b")
    case True
    then have "x \<in># mset b" by simp
    then have "add_mset x (mset xs) \<inter># mset b = add_mset x (mset xs \<inter># (mset b - {#x#}))"
      by (rule inter_add_left2)
    with True Cons[of "remove1 x b"] show ?thesis by simp
  next
    case False
    then have "\<not> x \<in># mset b" by simp
    then have "add_mset x (mset xs) \<inter># mset b = mset xs \<inter># mset b"
      by (rule inter_add_left1)
    with False Cons[of b] show ?thesis by simp
  qed
qed

lemma quick_matches_insert:
  assumes "mset w = add_mset c (mset g)"
  shows "quick_matches k w \<le> quick_matches k g + 1"
proof -
  have "size (mset k \<inter># add_mset c (mset g)) \<le> Suc (size (mset k \<inter># mset g))"
  proof (cases "c \<in># mset k")
    case True
    then have e: "mset k \<inter># add_mset c (mset g) = add_mset c ((mset k - {#c#}) \<inter># mset g)"
      by (rule inter_add_right2)
    have "(mset k - {#c#}) \<inter># mset g \<subseteq># mset k \<inter># mset g"
      by (rule subset_mset.inf_mono) simp_all
    then have "size ((mset k - {#c#}) \<inter># mset g) \<le> size (mset k \<inter># mset g)"
      by (rule size_mset_mono)
    with e show ?thesis by simp
  next
    case False
    then have "mset k \<inter># add_mset c (mset g) = mset k \<inter># mset g"
      by (rule inter_add_right1)
    then show ?thesis by simp
  qed
  with assms show ?thesis by (simp add: quick_matches_size)
qed

lemma quick_matches_sub:
  assumes "mset w \<subseteq># mset g"
  shows "quick_matches k w \<le> quick_matches k g + 0"
proof -
  have "mset k \<inter># mset w \<subseteq># mset k \<inter># mset g"
    using assms by (intro subset_mset.inf_mono) simp_all
  then show ?thesis by (simp add: quick_matches_size size_mset_mono)
qed

lemma quick_matches_super:
  assumes "mset g \<subseteq># mset w"
  shows "quick_matches g w = length g"
proof -
  from assms have "mset g \<inter># mset w = mset g" by (rule subset_mset.inf_absorb1)
  then show ?thesis by (simp add: quick_matches_size)
qed

lemma cutoff_mono: "m \<le> m' \<Longrightarrow> cutoff_ok m t \<Longrightarrow> cutoff_ok m' t"
  by (auto simp: cutoff_ok_def split: if_splits)

text \<open>
  \<open>far n e g k\<close>: the key \<open>k\<close> fails the length test or the letter-count test against
  every word of length \<open>n\<close> that shares with \<open>k\<close> at most \<open>e\<close> letters more than \<open>g\<close> does.
\<close>

definition far :: "nat \<Rightarrow> nat \<Rightarrow> string \<Rightarrow> string \<Rightarrow> bool" where
  "far n e g k =
     (let t = length k + n
      in (if cutoff_ok (min (length k) n) t then \<not> cutoff_ok (quick_matches k g + e) t else True))"

lemma far_not_close:
  assumes "far (length w) e g k" and "quick_matches k w \<le> quick_matches k g + e"
  shows "\<not> close_enough w k"
proof (cases "cutoff_ok (min (length k) (length w)) (length k + length w)")
  case False
  then show ?thesis by (simp add: close_enough_def)
next
  case True
  with assms(1) have "\<not> cutoff_ok (quick_matches k g + e) (length k + length w)"
    by (simp add: far_def)
  with assms(2) have "\<not> cutoff_ok (quick_matches k w) (length k + length w)"
    using cutoff_mono by blast
  then show ?thesis by (simp add: close_enough_def)
qed

lemma get_close_matches_single:
  assumes "ps = pre @ x # post"
    and "\<forall>k \<in> set pre. \<not> close_enough w k" and "\<forall>k \<in> set post. \<not> close_enough w k"
    and "close_enough w x"
  shows "get_close_matches w ps = [x]"
proof -
  from assms(2) have "filter (close_enough w) pre = []" by (simp add: filter_empty_conv)
  moreover from assms(3) have "filter (close_enough w) post = []" by (simp add: filter_empty_conv)
  ultimately have "filter (close_enough w) ps = [x]" using assms(1,4) by simp
  then show ?thesis by (simp add: get_close_matches_def)
qed

text \<open>The state keys, in the order of the dictionary, around \<open>gujarat\<close>.\<close>

definition states_before_gujarat :: "string list" where
  "states_before_gujarat = [''andhrapradesh'', ''arunachalpradesh'', ''assam'', ''bihar'',
     ''chhattisgarh'', ''goa'']"

definition states_after_gujarat :: "string list" where
  "states_after_gujarat = [''haryana'', ''himachalpradesh'', ''jharkhand'', ''karnataka'',
     ''kerala'', ''madhyapradesh'', ''maharashtra'', ''manipur'', ''meghalaya'', ''mizoram'',
     ''nagaland'', ''odisha'', ''punjab'', ''rajasthan'', ''sikkim'', ''tamilnadu'', ''telangana'',
     ''tripura'', ''uttarpradesh'', ''uttarakhand'', ''westbengal'']"

lemma state_keys_split:
  "map fst STATE_KEY_TO_NAME = states_before_gujarat @ ''gujarat'' # states_after_gujarat"
  by (simp add: state_table states_before_gujarat_def states_after_gujarat_def)

lemma gujarat_name: "the (map_of STATE_KEY_TO_NAME ''gujarat'') = ''Gujarat''"
  by (simp add: state_table)

lemma gujarat_fuzzy:
  assumes nk: "normalized_state_key w = w"
    and al: "alias_lookup w = None" and ex: "exact_lookup w = None"
    and f1: "\<forall>k \<in> set states_before_gujarat. \<not> close_enough w k"
    and f2: "\<forall>k \<in> set states_after_gujarat. \<not> close_enough w k"
    and cl: "close_enough w ''gujarat''"
  shows "canonicalize_region w [] = (''STATE'', ''Gujarat'')"
proof -
  have d: "list_all is_digit ([] :: string)" by simp
  have "get_close_matches w (map fst STATE_KEY_TO_NAME) = [''gujarat'']"
    using state_keys_split f1 f2 cl by (rule get_close_matches_single)
  then have fz: "fuzzy_lookup ''STATE'' STATE_KEY_TO_NAME w = Some (''STATE'', ''Gujarat'')"
    by (simp add: fuzzy_lookup_def gujarat_name)
  have "canonicalize_region w [] = chain w []"
    by (simp add: canonicalize_region_chain nk normalized_district_key_eq key_Nil)
  also have "\<dots> = (''STATE'', ''Gujarat'')"
    unfolding chain_def by (simp only: al ex digits_district_miss[OF d] fz first_hit.simps)
  finally show ?thesis .
qed

section \<open>Keys one edit away from \<open>gujarat\<close>\<close>

text \<open>
  The keys obtained from a key by inserting one character of \<open>[a-z0-9]\<close>, and by
  deleting one character.
\<close>

definition alphabet :: string where
  "alphabet = ''abcdefghijklmnopqrstuvwxyz0123456789''"

definition insertions :: "string \<Rightarrow> string list" where
  "insertions s =
     concat (map (\<lambda>i. map (\<lambda>c. take i s @ c # drop i s) alphabet) [0 ..< Suc (length s)])"

definition deletions :: "string \<Rightarrow> string list" where
  "deletions s = map (\<lambda>i. take i s @ drop (Suc i) s) [0 ..< length s]"

lemma insertions_gujarat:
  "insertions ''gujarat'' =
     [''agujarat'', ''bgujarat'', ''cgujarat'', ''dgujarat'', ''egujarat'', ''fgujarat'', ''ggujarat'', ''hgujarat'', ''igujarat'', ''jgujarat'', ''kgujarat'', ''lgujarat'', ''mgujarat'', ''ngujarat'', ''ogujarat'', ''pgujarat'', ''qgujarat'', ''rgujarat'', ''sgujarat'', ''tgujarat'', ''ugujarat'', ''vgujarat'', ''wgujarat'', ''xgujarat'', ''ygujarat'', ''zgujarat'', ''0gujarat'', ''1gujarat'', ''2gujarat'', ''3gujarat'', ''4gujarat'', ''5gujarat'', ''6gujarat'', ''7gujarat'', ''8gujarat'', ''9gujarat''] @
     [''gaujarat'', ''gbujarat'', ''gcujarat'', ''gdujarat'', ''geujarat'', ''gfujarat'', ''ggujarat'', ''ghujarat'', ''giujarat'', ''gjujarat'', ''gkujarat'', ''glujarat'', ''gmujarat'', ''gnujarat'', ''goujarat'', ''gpujarat'', ''gqujarat'', ''grujarat'', ''gsujarat'', ''gtujarat'', ''guujarat'', ''gvujarat'', ''gwujarat'', ''gxujarat'', ''gyujarat'', ''gzujarat'', ''g0ujarat'', ''g1ujarat'', ''g2ujarat'', ''g3ujarat'', ''g4ujarat'', ''g5ujarat'', ''g6ujarat'', ''g7ujarat'', ''g8ujarat'', ''g9ujarat''] @
     [''guajarat'', ''gubjarat'', ''gucjarat'', ''gudjarat'', ''guejarat'', ''gufjarat'', ''gugjarat'', ''guhjarat'', ''guijarat'', ''gujjarat'', ''gukjarat'', ''guljarat'', ''gumjarat'', ''gunjarat'', ''guojarat'', ''gupjarat'', ''guqjarat'', ''gurjarat'', ''gusjarat'', ''gutjarat'', ''guujarat'', ''guvjarat'', ''guwjarat'', ''guxjarat'', ''guyjarat'', ''guzjarat'', ''gu0jarat'', ''gu1jarat'', ''gu2jarat'', ''gu3jarat'', ''gu4jarat'', ''gu5jarat'', ''gu6jarat'', ''gu7jarat'', ''gu8jarat'', ''gu9jarat''] @
     [''gujaarat'', ''gujbarat'', ''gujcarat'', ''gujdarat'', ''gujearat'', ''gujfarat'', ''gujgarat'', ''gujharat'', ''gujiarat'', ''gujjarat'', ''gujkarat'', ''gujlarat'', ''gujmarat'', ''gujnarat'', ''gujoarat'', ''gujparat'', ''gujqarat'', ''gujrarat'', ''gujsarat'', ''gujtarat'', ''gujuarat'', ''gujvarat'', ''gujwarat'', ''gujxarat'', ''gujyarat'', ''gujzarat'', ''guj0arat'', ''guj1arat'', ''guj2arat'', ''guj3arat'', ''guj4arat'', ''guj5arat'', ''guj6arat'', ''guj7arat'', ''guj8arat'', ''guj9arat''] @
     [''gujaarat'', ''gujabrat'', ''gujacrat'', ''gujadrat'', ''gujaerat'', ''gujafrat'', ''gujagrat'', ''gujahrat'', ''gujairat'', ''gujajrat'', ''gujakrat'', ''gujalrat'', ''gujamrat'', ''gujanrat'', ''gujaorat'', ''gujaprat'', ''gujaqrat'', ''gujarrat'', ''gujasrat'', ''gujatrat'', ''gujaurat'', ''gujavrat'', ''gujawrat'', ''gujaxrat'', ''gujayrat'', ''gujazrat'', ''guja0rat'', ''guja1rat'', ''guja2rat'', ''guja3rat'', ''guja4rat'', ''guja5rat'', ''guja6rat'', ''guja7rat'', ''guja8rat'', ''guja9rat''] @
     [''gujaraat'', ''gujarbat'', ''gujarcat'', ''gujardat'', ''gujareat'', ''gujarfat'', ''gujargat'', ''gujarhat'', ''gujariat'', ''gujarjat'', ''gujarkat'', ''gujarlat'', ''gujarmat'', ''gujarnat'', ''gujaroat'', ''gujarpat'', ''gujarqat'', ''gujarrat'', ''gujarsat'', ''gujartat'', ''gujaruat'', ''gujarvat'', ''gujarwat'', ''gujarxat'', ''gujaryat'', ''gujarzat'', ''gujar0at'', ''gujar1at'', ''gujar2at'', ''gujar3at'', ''gujar4at'', ''gujar5at'', ''gujar6at'', ''gujar7at'', ''gujar8at'', ''gujar9at''] @
     [''gujaraat'', ''gujarabt'', ''gujaract'', ''gujaradt'', ''gujaraet'', ''gujaraft'', ''gujaragt'', ''gujaraht'', ''gujarait'', ''gujarajt'', ''gujarakt'', ''gujaralt'', ''gujaramt'', ''gujarant'', ''gujaraot'', ''gujarapt'', ''gujaraqt'', ''gujarart'', ''gujarast'', ''gujaratt'', ''gujaraut'', ''gujaravt'', ''gujarawt'', ''gujaraxt'', ''gujarayt'', ''gujarazt'', ''gujara0t'', ''gujara1t'', ''gujara2t'', ''gujara3t'', ''gujara4t'', ''gujara5t'', ''gujara6t'', ''gujara7t'', ''gujara8t'', ''gujara9t''] @
     [''gujarata'', ''gujaratb'', ''gujaratc'', ''gujaratd'', ''gujarate'', ''gujaratf'', ''gujaratg'', ''gujarath'', ''gujarati'', ''gujaratj'', ''gujaratk'', ''gujaratl'', ''gujaratm'', ''gujaratn'', ''gujarato'', ''gujaratp'', ''gujaratq'', ''gujaratr'', ''gujarats'', ''gujaratt'', ''gujaratu'', ''gujaratv'', ''gujaratw'', ''gujaratx'', ''gujaraty'', ''gujaratz'', ''gujarat0'', ''gujarat1'', ''gujarat2'', ''gujarat3'', ''gujarat4'', ''gujarat5'', ''gujarat6'', ''gujarat7'', ''gujarat8'', ''gujarat9'']"
  by (simp add: insertions_def alphabet_def upt_conv_Cons)

lemma deletions_gujarat: "deletions ''gujarat'' = [''ujarat'', ''gjarat'', ''guarat'', ''gujrat'', ''gujaat'', ''gujart'', ''gujara'']"
  by (simp add: deletions_def upt_conv_Cons)

lemma insertion_matching_0:
  "list_all (\<lambda>w. matching ''gujarat'' w = 7)
     [''agujarat'', ''bgujarat'', ''cgujarat'', ''dgujarat'', ''egujarat'', ''fgujarat'', ''ggujarat'', ''hgujarat'', ''igujarat'', ''jgujarat'', ''kgujarat'', ''lgujarat'', ''mgujarat'', ''ngujarat'', ''ogujarat'', ''pgujarat'', ''qgujarat'', ''rgujarat'', ''sgujarat'', ''tgujarat'', ''ugujarat'', ''vgujarat'', ''wgujarat'', ''xgujarat'', ''ygujarat'', ''zgujarat'', ''0gujarat'', ''1gujarat'', ''2gujarat'', ''3gujarat'', ''4gujarat'', ''5gujarat'', ''6gujarat'', ''7gujarat'', ''8gujarat'', ''9gujarat'']"
  by (simp add: find_longest_match_def)

lemma insertion_matching_1:
  "list_all (\<lambda>w. matching ''gujarat'' w = 7)
     [''gaujarat'', ''gbujarat'', ''gcujarat'', ''gdujarat'', ''geujarat'', ''gfujarat'', ''ggujarat'', ''ghujarat'', ''giujarat'', ''gjujarat'', ''gkujarat'', ''glujarat'', ''gmujarat'', ''gnujarat'', ''goujarat'', ''gpujarat'', ''gqujarat'', ''grujarat'', ''gsujarat'', ''gtujarat'', ''guujarat'', ''gvujarat'', ''gwujarat'', ''gxujarat'', ''gyujarat'', ''gzujarat'', ''g0ujarat'', ''g1ujarat'', ''g2ujarat'', ''g3ujarat'', ''g4ujarat'', ''g5ujarat'', ''g6ujarat'', ''g7ujarat'', ''g8ujarat'', ''g9ujarat'']"
  by (simp add: find_longest_match_def)

lemma insertion_matching_2:
  "list_all (\<lambda>w. matching ''gujarat'' w = 7)
     [''guajarat'', ''gubjarat'', ''gucjarat'', ''gudjarat'', ''guejarat'', ''gufjarat'', ''gugjarat'', ''guhjarat'', ''guijarat'', ''gujjarat'', ''gukjarat'', ''guljarat'', ''gumjarat'', ''gunjarat'', ''guojarat'', ''gupjarat'', ''guqjarat'', ''gurjarat'', ''gusjarat'', ''gutjarat'', ''guujarat'', ''guvjarat'', ''guwjarat'', ''guxjarat'', ''guyjarat'', ''guzjarat'', ''gu0jarat'', ''gu1jarat'', ''gu2jarat'', ''gu3jarat'', ''gu4jarat'', ''gu5jarat'', ''gu6jarat'', ''gu7jarat'', ''gu8jarat'', ''gu9jarat'']"
  by (simp add: find_longest_match_def)

lemma insertion_matching_3:
  "list_all (\<lambda>w. matching ''gujarat'' w = 7)
     [''gujaarat'', ''gujbarat'', ''gujcarat'', ''gujdarat'', ''gujearat'', ''gujfarat'', ''gujgarat'', ''gujharat'', ''gujiarat'', ''gujjarat'', ''gujkarat'', ''gujlarat'', ''gujmarat'', ''gujnarat'', ''gujoarat'', ''gujparat'', ''gujqarat'', ''gujrarat'', ''gujsarat'', ''gujtarat'', ''gujuarat'', ''gujvarat'', ''gujwarat'', ''gujxarat'', ''gujyarat'', ''gujzarat'', ''guj0arat'', ''guj1arat'', ''guj2arat'', ''guj3arat'', ''guj4arat'', ''guj5arat'', ''guj6arat'', ''guj7arat'', ''guj8arat'', ''guj9arat'']"
  by (simp add: find_longest_match_def)

lemma insertion_matching_4:
  "list_all (\<lambda>w. matching ''gujarat'' w = 7)
     [''gujaarat'', ''gujabrat'', ''gujacrat'', ''gujadrat'', ''gujaerat'', ''gujafrat'', ''gujagrat'', ''gujahrat'', ''gujairat'', ''gujajrat'', ''gujakrat'', ''gujalrat'', ''gujamrat'', ''gujanrat'', ''gujaorat'', ''gujaprat'', ''gujaqrat'', ''gujarrat'', ''gujasrat'', ''gujatrat'', ''gujaurat'', ''gujavrat'', ''gujawrat'', ''gujaxrat'', ''gujayrat'', ''gujazrat'', ''guja0rat'', ''guja1rat'', ''guja2rat'', ''guja3rat'', ''guja4rat'', ''guja5rat'', ''guja6rat'', ''guja7rat'', ''guja8rat'', ''guja9rat'']"
  by (simp add: find_longest_match_def)

lemma insertion_matching_5:
  "list_all (\<lambda>w. matching ''gujarat'' w = 7)
     [''gujaraat'', ''gujarbat'', ''gujarcat'', ''gujardat'', ''gujareat'', ''gujarfat'', ''gujargat'', ''gujarhat'', ''gujariat'', ''gujarjat'', ''gujarkat'', ''gujarlat'', ''gujarmat'', ''gujarnat'', ''gujaroat'', ''gujarpat'', ''gujarqat'', ''gujarrat'', ''gujarsat'', ''gujartat'', ''gujaruat'', ''gujarvat'', ''gujarwat'', ''gujarxat'', ''gujaryat'', ''gujarzat'', ''gujar0at'', ''gujar1at'', ''gujar2at'', ''gujar3at'', ''gujar4at'', ''gujar5at'', ''gujar6at'', ''gujar7at'', ''gujar8at'', ''gujar9at'']"
  by (simp add: find_longest_match_def)

lemma insertion_matching_6:
  "list_all (\<lambda>w. matching ''gujarat'' w = 7)
     [''gujaraat'', ''gujarabt'', ''gujaract'', ''gujaradt'', ''gujaraet'', ''gujaraft'', ''gujaragt'', ''gujaraht'', ''gujarait'', ''gujarajt'', ''gujarakt'', ''gujaralt'', ''gujaramt'', ''gujarant'', ''gujaraot'', ''gujarapt'', ''gujaraqt'', ''gujarart'', ''gujarast'', ''gujaratt'', ''gujaraut'', ''gujaravt'', ''gujarawt'', ''gujaraxt'', ''gujarayt'', ''gujarazt'', ''gujara0t'', ''gujara1t'', ''gujara2t'', ''gujara3t'', ''gujara4t'', ''gujara5t'', ''gujara6t'', ''gujara7t'', ''gujara8t'', ''gujara9t'']"
  by (simp add: find_longest_match_def)

lemma insertion_matching_7:
  "list_all (\<lambda>w. matching ''gujarat'' w = 7)
     [''gujarata'', ''gujaratb'', ''gujaratc'', ''gujaratd'', ''gujarate'', ''gujaratf'', ''gujaratg'', ''gujarath'', ''gujarati'', ''gujaratj'', ''gujaratk'', ''gujaratl'', ''gujaratm'', ''gujaratn'', ''gujarato'', ''gujaratp'', ''gujaratq'', ''gujaratr'', ''gujarats'', ''gujaratt'', ''gujaratu'', ''gujaratv'', ''gujaratw'', ''gujaratx'', ''gujaraty'', ''gujaratz'', ''gujarat0'', ''gujarat1'', ''gujarat2'', ''gujarat3'', ''gujarat4'', ''gujarat5'', ''gujarat6'', ''gujarat7'', ''gujarat8'', ''gujarat9'']"
  by (simp add: find_longest_match_def)

lemma insertion_matching:
  "list_all (\<lambda>w. matching ''gujarat'' w = 7) (insertions ''gujarat'')"
  unfolding insertions_gujarat list_all_append
  using insertion_matching_0 insertion_matching_1 insertion_matching_2 insertion_matching_3
    insertion_matching_4 insertion_matching_5 insertion_matching_6 insertion_matching_7
  by (intro conjI)

lemma deletion_matching:
  "list_all (\<lambda>w. matching ''gujarat'' w = 6) (deletions ''gujarat'')"
  unfolding deletions_gujarat by (simp add: find_longest_match_def)

end
